theory Spec2Isabelle
  imports Main "HOL-Library.Sublist"
begin

section \<open>Data model (shared/schema.ts)\<close>

text \<open>
  The rows of the three tables that the moderation pipeline touches. A nullable column is
  an \<open>option\<close>; a \<open>notNull\<close> text column is a \<open>string\<close>. Field names follow the
  schema; where two tables share a column name the audit row carries the prefix \<open>l_\<close>
  and the configuration row the prefix \<open>c_\<close>.
\<close>

record ModConfig =
  c_id :: string
  c_serverId :: string
  c_serverName :: string
  sensitivity :: string
  primaryAction :: string
  enableWarn :: bool
  warnMessage :: "string option"
  enableLog :: bool
  logChannelId :: "string option"
  enableKick :: bool
  enableBan :: bool
  banDuration :: "int option"
  customCommand :: "string option"
  monitoredChannels :: "string list option"
  monitorAllChannels :: bool

record ModerationLog =
  l_id :: string
  l_serverId :: string
  l_serverName :: string
  userId :: string
  username :: string
  userAvatar :: "string option"
  l_channelId :: string
  channelName :: string
  messageContent :: string
  l_violationType :: string
  l_confidenceScore :: int
  aiReasoning :: string
  actionTaken :: string
  timestamp :: int

text \<open>
  \<open>timestamp\<close> is the value of \<open>new Date(t).getTime()\<close>: milliseconds since the epoch.
\<close>

section \<open>The in-memory store (MemStorage)\<close>

record WebSocket =
  ws_id :: nat
  readyState :: nat

record BotState =
  configs :: "string \<rightharpoonup> ModConfig"
  logs :: "ModerationLog list"
  connectedClients :: "WebSocket list"

definition getConfig :: "BotState \<Rightarrow> string \<Rightarrow> ModConfig option" where
  "getConfig st serverId = configs st serverId"

text \<open>
  \<open>Array.prototype.sort\<close> with a comparator: ECMAScript requires the sort to be stable, so
  for a consistent comparator the result is the one stable insertion sort gives. An element
  is placed before the first element of the sorted rest that it does not compare greater
  than.
\<close>

fun insertBy :: "('a \<Rightarrow> 'a \<Rightarrow> int) \<Rightarrow> 'a \<Rightarrow> 'a list \<Rightarrow> 'a list" where
  "insertBy cmp x [] = [x]"
| "insertBy cmp x (y # ys) = (if cmp x y \<le> 0 then x # y # ys else y # insertBy cmp x ys)"

fun sortBy :: "('a \<Rightarrow> 'a \<Rightarrow> int) \<Rightarrow> 'a list \<Rightarrow> 'a list" where
  "sortBy cmp [] = []"
| "sortBy cmp (x # xs) = insertBy cmp x (sortBy cmp xs)"

text \<open>
  \<open>xs.slice(0, end)\<close> for an integral \<open>end\<close>: a negative end counts from the back of the
  array, and the bounds are clamped to the array.
\<close>

definition slice0 :: "'a list \<Rightarrow> int \<Rightarrow> 'a list" where
  "slice0 xs end = (if end < 0 then take (nat (int (length xs) + end)) xs else take (nat end) xs)"

definition byTimestampDesc :: "ModerationLog \<Rightarrow> ModerationLog \<Rightarrow> int" where
  "byTimestampDesc a b = timestamp b - timestamp a"

definition getLogs :: "BotState \<Rightarrow> ModerationLog list" where
  "getLogs st = sortBy byTimestampDesc (logs st)"

text \<open>The parameter \<open>limit\<close>, a whole number, defaults to 5 when the caller passes none.\<close>

definition getRecentLogs :: "BotState \<Rightarrow> int option \<Rightarrow> ModerationLog list" where
  "getRecentLogs st limit =
     (let sorted = sortBy byTimestampDesc (logs st)
      in slice0 sorted (case limit of None \<Rightarrow> 5 | Some n \<Rightarrow> n))"

section \<open>The classification client (analyzeMessage)\<close>

text \<open>
  The value \<open>JSON.parse\<close> returns is any JSON value; reading a property that is missing
  gives \<open>undefined\<close>. Numbers are held as integers (the reply asks for a score 0-100).
\<close>

datatype jsval =
    JUndefined
  | JNull
  | JBool bool
  | JNum int
  | JStr string
  | JArr "jsval list"
  | JObj "(string \<times> jsval) list"

fun truthy :: "jsval \<Rightarrow> bool" where
  "truthy JUndefined = False"
| "truthy JNull = False"
| "truthy (JBool b) = b"
| "truthy (JNum n) = (n \<noteq> 0)"
| "truthy (JStr s) = (s \<noteq> [])"
| "truthy (JArr xs) = True"
| "truthy (JObj kvs) = True"

text \<open>\<open>a || b\<close> on values.\<close>

definition jsOr :: "jsval \<Rightarrow> jsval \<Rightarrow> jsval" where
  "jsOr a b = (if truthy a then a else b)"

text \<open>
  \<open>result.name\<close> for one of the four names read here: on \<open>null\<close> the read throws a
  TypeError (\<open>None\<close>); on an object it is the property or \<open>undefined\<close>; on any other
  value it is \<open>undefined\<close>. \<open>JObj\<close> lists the object's own properties, each key once.
\<close>

fun getProp :: "jsval \<Rightarrow> string \<Rightarrow> jsval option" where
  "getProp JNull name = None"
| "getProp JUndefined name = None"
| "getProp (JObj kvs) name = (case map_of kvs name of None \<Rightarrow> Some JUndefined | Some v \<Rightarrow> Some v)"
| "getProp v name = Some JUndefined"

text \<open>
  What the awaited \<open>openai.chat.completions.create\<close> gives: it rejects (transport error,
  timeout, HTTP error), or resolves to a response. Of a response the code reads
  \<open>response.choices[0]?.message?.content\<close>: with no \<open>choices\<close> array the read throws,
  otherwise it is the content string or nothing.
\<close>

datatype completion = Rejects | NoChoices | Content "string option"

text \<open>
  The object literal that \<open>analyzeMessage\<close> returns. The interface \<open>ModerationResult\<close>
  types its fields as boolean, string, number and string; at run time they hold whatever
  the parsed reply held.
\<close>

record RawModerationResult =
  raw_isViolation :: jsval
  raw_violationType :: jsval
  raw_confidenceScore :: jsval
  raw_reasoning :: jsval

definition errorResult :: RawModerationResult where
  "errorResult = \<lparr>raw_isViolation = JBool False, raw_violationType = JStr ''none'',
     raw_confidenceScore = JNum 0, raw_reasoning = JStr ''Error analyzing message''\<rparr>"

datatype thrown = RequestError | TypeError | SyntaxError

text \<open>\<open>c || "{}"\<close> on the content read from the response.\<close>

definition contentText :: "string option \<Rightarrow> string" where
  "contentText c = (case c of None \<Rightarrow> ''{}'' | Some s \<Rightarrow> if s = [] then ''{}'' else s)"

text \<open>
  The body of the try block, given the outcome of the request and \<open>JSON.parse\<close> as a
  function (\<open>None\<close> is a SyntaxError): the request, the read of the content, the parse
  and the four property reads, each of which may throw (\<open>Inl\<close>).
\<close>

definition tryBlock :: "(string \<Rightarrow> jsval option) \<Rightarrow> completion \<Rightarrow> thrown + RawModerationResult" where
  "tryBlock parse response =
     (case response of
        Rejects \<Rightarrow> Inl RequestError
      | NoChoices \<Rightarrow> Inl TypeError
      | Content c \<Rightarrow>
          (case parse (contentText c) of
             None \<Rightarrow> Inl SyntaxError
           | Some result \<Rightarrow>
               (case getProp result ''isViolation'' of
                  None \<Rightarrow> Inl TypeError
                | Some iv \<Rightarrow>
                    (case getProp result ''violationType'' of
                       None \<Rightarrow> Inl TypeError
                     | Some vt \<Rightarrow>
                         (case getProp result ''confidenceScore'' of
                            None \<Rightarrow> Inl TypeError
                          | Some cs \<Rightarrow>
                              (case getProp result ''reasoning'' of
                                 None \<Rightarrow> Inl TypeError
                               | Some rs \<Rightarrow>
                                   Inr \<lparr>raw_isViolation = jsOr iv (JBool False),
                                        raw_violationType = jsOr vt (JStr ''none''),
                                        raw_confidenceScore = jsOr cs (JNum 0),
                                        raw_reasoning = jsOr rs (JStr ''No violation detected'')\<rparr>))))))"

text \<open>
  \<open>analyzeMessage\<close>: the statements before the try block build the prompt from two
  strings and cannot throw; whatever the try block throws ends in the catch block, which
  returns the fixed result.
\<close>

definition analyzeMessage :: "(string \<Rightarrow> jsval option) \<Rightarrow> completion \<Rightarrow> RawModerationResult" where
  "analyzeMessage parse response =
     (case tryBlock parse response of Inl e \<Rightarrow> errorResult | Inr r \<Rightarrow> r)"

section \<open>The chat platform as the handler sees it\<close>

record User =
  u_id :: string
  u_username :: string
  bot :: bool
  tag :: string
  displayAvatarURL :: string

text \<open>
  A guild with its name and the keys of \<open>members.cache\<close>: \<open>cache.get(id)\<close> is a member
  exactly when the id is a key.
\<close>

record Guild =
  g_name :: string
  members_cache :: "string list"

record Message =
  m_id :: string
  author :: User
  guildId :: "string option"
  guild :: "Guild option"
  channelId :: string
  m_channelName :: "string option"
  content :: string

record ModerationResult =
  isViolation :: bool
  violationType :: string
  confidenceScore :: int
  reasoning :: string

record Embed =
  title :: string
  description :: string
  color :: int
  e_timestamp :: string

text \<open>
  Every call that leaves the handler, in the order it is made. \<open>Ban\<close> carries the two
  options the code passes, \<open>reason\<close> and \<open>deleteMessageSeconds\<close>.
\<close>

datatype event =
    AnalyzeMessage string string
  | CreateLog ModerationLog
  | BroadcastLog "nat list" ModerationLog
  | SendDM string string
  | FetchChannel string
  | SendEmbed string Embed
  | Kick string string
  | Ban string string int
  | ChannelSend string string
  | DeleteMessage string
  | ConsoleError string

datatype fetched = FetchThrows | FetchNull | FetchChannelOk string

text \<open>
  What the outside world answers during one run of the handler: the verdict that
  \<open>analyzeMessage\<close> resolves to, the id and clock value \<open>createLog\<close> draws, and for each
  platform call whether it resolves (\<open>True\<close>) or rejects.
\<close>

record Env =
  analysis :: ModerationResult
  uuid :: string
  now :: int
  isoNow :: string
  dm_ok :: bool
  fetch_result :: fetched
  embed_ok :: bool
  kick_ok :: bool
  ban_ok :: bool
  custom_ok :: bool
  delete_ok :: bool

section \<open>Strings\<close>

fun showNat :: "nat \<Rightarrow> string" where
  "showNat n = (if n < 10 then [''0123456789'' ! n] else showNat (n div 10) @ [''0123456789'' ! (n mod 10)])"

declare showNat.simps [simp del]

definition showInt :: "int \<Rightarrow> string" where
  "showInt i = (if i < 0 then ''-'' @ showNat (nat (- i)) else showNat (nat i))"

text \<open>\<open>xs.join(sep)\<close> on an array of strings.\<close>

fun join :: "string \<Rightarrow> string list \<Rightarrow> string" where
  "join sep [] = []"
| "join sep [x] = x"
| "join sep (x # y # ys) = x @ sep @ join sep (y # ys)"

text \<open>
  The replacement text of \<open>s.replace(pat, rep)\<close> with a string pattern: in \<open>rep\<close> the pair
  \<open>$$\<close> stands for one dollar sign, \<open>$&\<close> for the matched text, dollar-backtick for the
  text before the match and dollar-apostrophe for the text after it; with no capture
  groups every other dollar sign is kept as it is.
\<close>

fun expandDollar :: "string \<Rightarrow> string \<Rightarrow> string \<Rightarrow> string \<Rightarrow> string" where
  "expandDollar matched pre post [] = []"
| "expandDollar matched pre post [c] = [c]"
| "expandDollar matched pre post (c # d # rest) =
     (if c = CHR ''$''
      then (if d = CHR ''$'' then CHR ''$'' # expandDollar matched pre post rest
            else if d = CHR ''&'' then matched @ expandDollar matched pre post rest
            else if d = CHR 0x60 then pre @ expandDollar matched pre post rest
            else if d = CHR 0x27 then post @ expandDollar matched pre post rest
            else c # expandDollar matched pre post (d # rest))
      else c # expandDollar matched pre post (d # rest))"

text \<open>
  \<open>s.replace(pat, rep)\<close> with a string pattern: the first occurrence only. \<open>pre\<close> is
  the part of the string already passed.
\<close>

fun replaceFrom :: "string \<Rightarrow> string \<Rightarrow> string \<Rightarrow> string \<Rightarrow> string" where
  "replaceFrom pat rep pre [] = (if pat = [] then expandDollar [] pre [] rep else [])"
| "replaceFrom pat rep pre (c # cs) =
     (if prefix pat (c # cs)
      then expandDollar pat pre (drop (length pat) (c # cs)) rep @ drop (length pat) (c # cs)
      else c # replaceFrom pat rep (pre @ [c]) cs)"

definition replaceFirst :: "string \<Rightarrow> string \<Rightarrow> string \<Rightarrow> string" where
  "replaceFirst pat rep s = replaceFrom pat rep [] s"

text \<open>A string or \<open>null\<close> in a condition, and \<open>s || d\<close>.\<close>

definition truthyStr :: "string option \<Rightarrow> bool" where
  "truthyStr s = (case s of None \<Rightarrow> False | Some t \<Rightarrow> t \<noteq> [])"

definition orElse :: "string option \<Rightarrow> string \<Rightarrow> string" where
  "orElse s d = (case s of None \<Rightarrow> d | Some t \<Rightarrow> if t = [] then d else t)"

section \<open>The bot (startBot, messageCreate handler)\<close>

text \<open>
  \<open>createLog\<close> pushes the new row on \<open>logs\<close> and returns that same object; the handler
  later assigns to its \<open>actionTaken\<close>. The returned reference is the row's index in
  \<open>logs\<close>, which never shrinks.
\<close>

definition createLog :: "string \<Rightarrow> int \<Rightarrow> ModerationLog \<Rightarrow> BotState \<Rightarrow> BotState \<times> nat" where
  "createLog newId clock insertLog st =
     (let log = insertLog\<lparr>l_id := newId, timestamp := clock\<rparr>
      in (st\<lparr>logs := logs st @ [log]\<rparr>, length (logs st)))"

definition setActionTaken :: "nat \<Rightarrow> string \<Rightarrow> BotState \<Rightarrow> BotState" where
  "setActionTaken ref v st =
     (if ref < length (logs st)
      then st\<lparr>logs := (logs st)[ref := (logs st ! ref)\<lparr>actionTaken := v\<rparr>]\<rparr>
      else st)"

text \<open>\<open>broadcastLog\<close>: the entry goes to every connected client whose readyState is 1.\<close>

definition broadcastLog :: "BotState \<Rightarrow> ModerationLog \<Rightarrow> event list" where
  "broadcastLog st log = [BroadcastLog (map ws_id (filter (\<lambda>c. readyState c = 1) (connectedClients st))) log]"

text \<open>
  The state of the action block: the calls made so far and the array \<open>actionsTaken\<close>.
  Each of the five blocks takes the outcome of its own platform call only.
\<close>

record Run =
  events :: "event list"
  actionsTaken :: "string list"

definition emptyRun :: Run where
  "emptyRun = \<lparr>events = [], actionsTaken = []\<rparr>"

definition emit :: "event list \<Rightarrow> Run \<Rightarrow> Run" where
  "emit es r = r\<lparr>events := events r @ es\<rparr>"

definition push :: "string \<Rightarrow> Run \<Rightarrow> Run" where
  "push l r = r\<lparr>actionsTaken := actionsTaken r @ [l]\<rparr>"

definition warnUser :: "ModConfig \<Rightarrow> Message \<Rightarrow> bool \<Rightarrow> Run \<Rightarrow> Run" where
  "warnUser config message ok r =
     (if enableWarn config \<and> truthyStr (warnMessage config)
      then (if ok
            then push ''warned'' (emit [SendDM (u_id (author message)) (the (warnMessage config))] r)
            else emit [SendDM (u_id (author message)) (the (warnMessage config)),
                       ConsoleError ''Failed to send warning DM:''] r)
      else r)"

definition alertEmbed :: "Message \<Rightarrow> ModerationResult \<Rightarrow> string \<Rightarrow> Embed" where
  "alertEmbed message a stamp =
     \<lparr>title = [CHR 0xF0, CHR 0x9F, CHR 0x9A, CHR 0xA8] @ '' Moderation Alert'',
      description = ''**User:** '' @ tag (author message) @ [CHR 0x0A] @
        ''**Channel:** '' @ (case m_channelName message of None \<Rightarrow> ''undefined'' | Some n \<Rightarrow> n) @ [CHR 0x0A] @
        ''**Violation:** '' @ violationType a @ [CHR 0x0A] @
        ''**Confidence:** '' @ showInt (confidenceScore a) @ ''%'' @ [CHR 0x0A] @
        ''**Reasoning:** '' @ reasoning a,
      color = 0xff0000,
      e_timestamp = stamp\<rparr>"

definition logToChannel ::
  "ModConfig \<Rightarrow> Message \<Rightarrow> ModerationResult \<Rightarrow> string \<Rightarrow> fetched \<Rightarrow> bool \<Rightarrow> Run \<Rightarrow> Run" where
  "logToChannel config message a stamp fetch ok r =
     (if enableLog config \<and> truthyStr (logChannelId config)
      then (case guild message of
              None \<Rightarrow> r
            | Some g \<Rightarrow>
                (case fetch of
                   FetchThrows \<Rightarrow> emit [FetchChannel (the (logChannelId config)),
                                         ConsoleError ''Failed to log to channel:''] r
                 | FetchNull \<Rightarrow> emit [FetchChannel (the (logChannelId config))] r
                 | FetchChannelOk ch \<Rightarrow>
                     (if ok
                      then push ''logged'' (emit [FetchChannel (the (logChannelId config)),
                                                  SendEmbed ch (alertEmbed message a stamp)] r)
                      else emit [FetchChannel (the (logChannelId config)),
                                 SendEmbed ch (alertEmbed message a stamp),
                                 ConsoleError ''Failed to log to channel:''] r)))
      else r)"

text \<open>\<open>message.guild?.members.cache.get(message.author.id)\<close> as a condition.\<close>

definition cachedMember :: "Message \<Rightarrow> bool" where
  "cachedMember message =
     (case guild message of None \<Rightarrow> False | Some g \<Rightarrow> u_id (author message) \<in> set (members_cache g))"

definition kickUser :: "ModConfig \<Rightarrow> Message \<Rightarrow> ModerationResult \<Rightarrow> bool \<Rightarrow> Run \<Rightarrow> Run" where
  "kickUser config message a ok r =
     (if enableKick config
      then (if cachedMember message
            then (if ok
                  then push ''kicked'' (emit [Kick (u_id (author message))
                                                (''Automated moderation: '' @ violationType a)] r)
                  else emit [Kick (u_id (author message)) (''Automated moderation: '' @ violationType a),
                             ConsoleError ''Failed to kick user:''] r)
            else r)
      else r)"

definition banUser :: "ModConfig \<Rightarrow> Message \<Rightarrow> ModerationResult \<Rightarrow> bool \<Rightarrow> Run \<Rightarrow> Run" where
  "banUser config message a ok r =
     (if enableBan config
      then (if cachedMember message
            then (if ok
                  then push ''banned'' (emit [Ban (u_id (author message))
                                                (''Automated moderation: '' @ violationType a) 86400] r)
                  else emit [Ban (u_id (author message)) (''Automated moderation: '' @ violationType a) 86400,
                             ConsoleError ''Failed to ban user:''] r)
            else r)
      else r)"

definition commandText :: "string \<Rightarrow> Message \<Rightarrow> string" where
  "commandText cmd message =
     replaceFirst ''@channel'' (''<#'' @ channelId message @ ''>'')
       (replaceFirst ''@user'' (''<@'' @ u_id (author message) @ ''>'') cmd)"

definition runCustomCommand :: "ModConfig \<Rightarrow> Message \<Rightarrow> bool \<Rightarrow> Run \<Rightarrow> Run" where
  "runCustomCommand config message ok r =
     (if truthyStr (customCommand config)
      then (if ok
            then push ''custom'' (emit [ChannelSend (channelId message)
                                          (commandText (the (customCommand config)) message)] r)
            else emit [ChannelSend (channelId message) (commandText (the (customCommand config)) message),
                       ConsoleError ''Failed to execute custom command:''] r)
      else r)"

text \<open>The five blocks in the order the handler runs them, from an empty \<open>actionsTaken\<close>.\<close>

definition executeActions :: "Env \<Rightarrow> ModConfig \<Rightarrow> Message \<Rightarrow> Run" where
  "executeActions env config message =
     runCustomCommand config message (custom_ok env)
       (banUser config message (analysis env) (ban_ok env)
         (kickUser config message (analysis env) (kick_ok env)
           (logToChannel config message (analysis env) (isoNow env) (fetch_result env) (embed_ok env)
             (warnUser config message (dm_ok env) emptyRun))))"

definition deleteOffending :: "Message \<Rightarrow> bool \<Rightarrow> event list" where
  "deleteOffending message ok =
     (if ok then [DeleteMessage (m_id message)]
      else [DeleteMessage (m_id message), ConsoleError ''Failed to delete message:''])"

text \<open>
  The argument of \<open>createLog\<close>. An insert row has no \<open>id\<close> and no \<open>timestamp\<close>; the two
  fields are written by \<open>createLog\<close> and hold nothing before.
\<close>

definition newEntry :: "Message \<Rightarrow> ModerationResult \<Rightarrow> ModerationLog" where
  "newEntry message a =
     \<lparr>l_id = [],
      l_serverId = (case guildId message of None \<Rightarrow> [] | Some g \<Rightarrow> g),
      l_serverName = orElse (map_option g_name (guild message)) ''Unknown Server'',
      userId = u_id (author message),
      username = u_username (author message),
      userAvatar = Some (displayAvatarURL (author message)),
      l_channelId = channelId message,
      channelName = orElse (m_channelName message) ''Unknown Channel'',
      messageContent = content message,
      l_violationType = violationType a,
      l_confidenceScore = confidenceScore a,
      aiReasoning = reasoning a,
      actionTaken = ''logged'',
      timestamp = 0\<rparr>"

text \<open>\<open>monitoredChannels.includes(message.channelId)\<close> on \<open>config.monitoredChannels || []\<close>.\<close>

definition channelListed :: "ModConfig \<Rightarrow> Message \<Rightarrow> bool" where
  "channelListed config message =
     (channelId message \<in> set (case monitoredChannels config of None \<Rightarrow> [] | Some cs \<Rightarrow> cs))"

text \<open>\<open>config.sensitivity || "medium"\<close>.\<close>

definition sensitivityOf :: "ModConfig \<Rightarrow> string" where
  "sensitivityOf config = (if sensitivity config = [] then ''medium'' else sensitivity config)"

definition serverKey :: "Message \<Rightarrow> string" where
  "serverKey message = (case guildId message of None \<Rightarrow> [] | Some g \<Rightarrow> g)"

text \<open>
  One run of the \<open>messageCreate\<close> handler from its first statement to its last, as the
  handler's own sequence of awaits orders it: the new state of the store and the calls
  made.
\<close>

definition onMessageCreate :: "Env \<Rightarrow> Message \<Rightarrow> BotState \<Rightarrow> BotState \<times> event list" where
  "onMessageCreate env message st =
     (if bot (author message) then (st, [])
      else case getConfig st (serverKey message) of
        None \<Rightarrow> (st, [])
      | Some config \<Rightarrow>
          if \<not> monitorAllChannels config \<and> \<not> channelListed config message then (st, [])
          else
            let called = [AnalyzeMessage (content message) (sensitivityOf config)]
            in if isViolation (analysis env)
               then
                 let (st1, ref) = createLog (uuid env) (now env) (newEntry message (analysis env)) st;
                     log = logs st1 ! ref;
                     sent = broadcastLog st1 log;
                     r = executeActions env config message;
                     st2 = (if actionsTaken r \<noteq> []
                            then setActionTaken ref (join '', '' (actionsTaken r)) st1
                            else st1)
                 in (st2, called @ [CreateLog log] @ sent @ events r @ deleteOffending message (delete_ok env))
               else (st, called))"

section \<open>Vocabulary for the properties\<close>



fun isCreateLog :: "event \<Rightarrow> bool" where
  "isCreateLog (CreateLog l) = True"
| "isCreateLog e = False"

fun isAnalyze :: "event \<Rightarrow> bool" where
  "isAnalyze (AnalyzeMessage c s) = True"
| "isAnalyze e = False"

text \<open>The platform calls of the five enforcement actions, and the action each belongs to.\<close>

fun isEnforcement :: "event \<Rightarrow> bool" where
  "isEnforcement (SendDM u t) = True"
| "isEnforcement (FetchChannel c) = True"
| "isEnforcement (SendEmbed c e) = True"
| "isEnforcement (Kick u r) = True"
| "isEnforcement (Ban u r d) = True"
| "isEnforcement (ChannelSend c t) = True"
| "isEnforcement e = False"


fun isKickOrBan :: "event \<Rightarrow> bool" where
  "isKickOrBan (Kick u r) = True"
| "isKickOrBan (Ban u r d) = True"
| "isKickOrBan e = False"

text \<open>The row that \<open>createLog\<close> stores for a violating message.\<close>

definition storedEntry :: "Env \<Rightarrow> Message \<Rightarrow> ModerationLog" where
  "storedEntry env message = (newEntry message (analysis env))\<lparr>l_id := uuid env, timestamp := now env\<rparr>"

text \<open>
  The labels of the actions that succeeded, in the order warn, log-to-channel, kick, ban,
  custom-command, read off the configuration and the outcomes of the platform calls: an
  action succeeds when it is configured, its target exists and its calls resolve.
\<close>

definition spec_succeededLabels :: "Env \<Rightarrow> ModConfig \<Rightarrow> Message \<Rightarrow> string list" where
  "spec_succeededLabels env config message =
     (if enableWarn config \<and> truthyStr (warnMessage config) \<and> dm_ok env then [''warned''] else [])
     @ (if enableLog config \<and> truthyStr (logChannelId config) \<and> guild message \<noteq> None
           \<and> fetch_result env \<noteq> FetchThrows \<and> fetch_result env \<noteq> FetchNull \<and> embed_ok env
        then [''logged''] else [])
     @ (if enableKick config \<and> cachedMember message \<and> kick_ok env then [''kicked''] else [])
     @ (if enableBan config \<and> cachedMember message \<and> ban_ok env then [''banned''] else [])
     @ (if truthyStr (customCommand config) \<and> custom_ok env then [''custom''] else [])"

section \<open>Sample data (seed-data.ts and the spec's scenario)\<close>

definition seedConfig :: ModConfig where
  "seedConfig = \<lparr>c_id = ''cfg-1'', c_serverId = ''123456789'', c_serverName = ''Example Server'',
     sensitivity = ''medium'', primaryAction = ''log'', enableWarn = True,
     warnMessage = Some ''Your message violated our community guidelines. Please be respectful.'',
     enableLog = True, logChannelId = Some ''mod-log-channel'', enableKick = False, enableBan = False,
     banDuration = None, customCommand = Some [], monitoredChannels = Some [], monitorAllChannels = True\<rparr>"

definition spamMessage :: Message where
  "spamMessage = \<lparr>m_id = ''m1'',
     author = \<lparr>u_id = ''user002'', u_username = ''SpamBot42'', bot = False,
       tag = ''SpamBot42#0001'', displayAvatarURL = ''https://cdn.example/a.png''\<rparr>,
     guildId = Some ''123456789'',
     guild = Some \<lparr>g_name = ''Example Server'', members_cache = [''user002'']\<rparr>,
     channelId = ''channel001'', m_channelName = Some ''general'',
     content = ''BUY CRYPTO NOW CLICK HERE''\<rparr>"

definition spamEnv :: Env where
  "spamEnv = \<lparr>analysis = \<lparr>isViolation = True, violationType = ''spam'', confidenceScore = 95,
       reasoning = ''promotional spam''\<rparr>,
     uuid = ''uuid-1'', now = 1000, isoNow = ''2025-01-01T00:00:00.000Z'',
     dm_ok = True, fetch_result = FetchChannelOk ''mod-log-channel'', embed_ok = True,
     kick_ok = False, ban_ok = True, custom_ok = True, delete_ok = True\<rparr>"

definition seedState :: BotState where
  "seedState = \<lparr>configs = [''123456789'' \<mapsto> seedConfig], logs = [],
     connectedClients = [\<lparr>ws_id = 1, readyState = 1\<rparr>, \<lparr>ws_id = 2, readyState = 3\<rparr>]\<rparr>"



definition strangerMessage :: Message where
  "strangerMessage = spamMessage\<lparr>guild := Some \<lparr>g_name = ''Example Server'', members_cache = []\<rparr>\<rparr>"


definition banConfig :: "int option \<Rightarrow> ModConfig" where
  "banConfig d = seedConfig\<lparr>enableKick := True, enableBan := True, banDuration := d\<rparr>"

definition entryAt :: "string \<Rightarrow> int \<Rightarrow> ModerationLog" where
  "entryAt i t = (newEntry spamMessage (analysis spamEnv))\<lparr>l_id := i, timestamp := t\<rparr>"

definition seededStore :: BotState where
  "seededStore = seedState\<lparr>logs := [entryAt ''a'' 10, entryAt ''b'' 30, entryAt ''c'' 20, entryAt ''d'' 30]\<rparr>"

text \<open>A server without a configuration, and a configuration that lists one channel.\<close>

definition unconfiguredMessage :: Message where
  "unconfiguredMessage = spamMessage\<lparr>guildId := Some ''555000111''\<rparr>"

definition selectiveConfig :: ModConfig where
  "selectiveConfig = seedConfig\<lparr>monitorAllChannels := False, monitoredChannels := Some [''channel002'']\<rparr>"

definition selectiveState :: BotState where
  "selectiveState = seedState\<lparr>configs := [''123456789'' \<mapsto> selectiveConfig]\<rparr>"

definition fullConfig :: ModConfig where
  "fullConfig = seedConfig\<lparr>enableKick := True, enableBan := True,
     customCommand := Some ''!mute @user in @channel''\<rparr>"

definition fullState :: BotState where
  "fullState = seedState\<lparr>configs := [''123456789'' \<mapsto> fullConfig]\<rparr>"

text \<open>A stand-in for \<open>JSON.parse\<close> that accepts the empty object only.\<close>

definition parseEmptyObject :: "string \<Rightarrow> jsval option" where
  "parseEmptyObject s = (if s = ''{}'' then Some (JObj []) else None)"

section \<open>Properties of the store\<close>

lemma insertBy_set: "set (insertBy cmp x xs) = insert x (set xs)"
  by (induction xs) auto

lemma sortBy_set: "set (sortBy cmp xs) = set xs"
  by (induction xs) (auto simp: insertBy_set)

lemma insertBy_desc:
  "sorted_wrt (\<lambda>a b. timestamp b \<le> timestamp a) xs \<Longrightarrow>
   sorted_wrt (\<lambda>a b. timestamp b \<le> timestamp a) (insertBy byTimestampDesc x xs)"
  by (induction xs) (auto simp: insertBy_set byTimestampDesc_def)

lemma sortBy_desc: "sorted_wrt (\<lambda>a b. timestamp b \<le> timestamp a) (sortBy byTimestampDesc xs)"
  by (induction xs) (auto intro: insertBy_desc)

text \<open>
  Claim C9. For every store state and every \<open>n \<ge> 0\<close>, \<open>getRecentLogs n\<close> is exactly the
  first \<open>n\<close> entries of \<open>getLogs\<close>, which is ordered by timestamp descending; with \<open>n = 0\<close>
  the result is the empty list.
\<close>

theorem getRecentLogs_prefix_of_getLogs:
  "0 \<le> n \<Longrightarrow>
     getRecentLogs st (Some n) = take (nat n) (getLogs st)
     \<and> sorted_wrt (\<lambda>a b. timestamp b \<le> timestamp a) (getLogs st)
     \<and> sorted_wrt (\<lambda>a b. timestamp b \<le> timestamp a) (getRecentLogs st (Some n))
     \<and> getRecentLogs st (Some 0) = []"
  by (simp add: getRecentLogs_def getLogs_def slice0_def sortBy_desc sorted_wrt_take)

theorem getRecentLogs_prefix_of_getLogs_witness:
  "(0::int) \<le> 2
     \<and> getRecentLogs seededStore (Some 2) = take (nat 2) (getLogs seededStore)
     \<and> sorted_wrt (\<lambda>a b. timestamp b \<le> timestamp a) (getLogs seededStore)
     \<and> sorted_wrt (\<lambda>a b. timestamp b \<le> timestamp a) (getRecentLogs seededStore (Some 2))
     \<and> getRecentLogs seededStore (Some 0) = []
     \<and> map l_id (getRecentLogs seededStore (Some 2)) = [''b'', ''d'']"
proof -
  have h: "(0::int) \<le> 2" by simp
  have v: "map l_id (getRecentLogs seededStore (Some 2)) = [''b'', ''d'']" by code_simp
  from getRecentLogs_prefix_of_getLogs [OF h, of seededStore] h v show ?thesis by simp
qed

section \<open>The action block\<close>

text \<open>
  Each block appends to the calls and labels it is handed and reads neither of them: its
  own calls and labels are those it produces from the empty state.
\<close>

lemma warnUser_append:
  "events (warnUser config message ok r) = events r @ events (warnUser config message ok emptyRun)"
  "actionsTaken (warnUser config message ok r) = actionsTaken r @ actionsTaken (warnUser config message ok emptyRun)"
  by (simp_all add: warnUser_def emit_def push_def emptyRun_def)

lemma logToChannel_append:
  "events (logToChannel config message a stamp fetch ok r) =
     events r @ events (logToChannel config message a stamp fetch ok emptyRun)"
  "actionsTaken (logToChannel config message a stamp fetch ok r) =
     actionsTaken r @ actionsTaken (logToChannel config message a stamp fetch ok emptyRun)"
  by (simp_all add: logToChannel_def emit_def push_def emptyRun_def split: option.splits fetched.splits)

lemma kickUser_append:
  "events (kickUser config message a ok r) = events r @ events (kickUser config message a ok emptyRun)"
  "actionsTaken (kickUser config message a ok r) = actionsTaken r @ actionsTaken (kickUser config message a ok emptyRun)"
  by (simp_all add: kickUser_def emit_def push_def emptyRun_def)

lemma banUser_append:
  "events (banUser config message a ok r) = events r @ events (banUser config message a ok emptyRun)"
  "actionsTaken (banUser config message a ok r) = actionsTaken r @ actionsTaken (banUser config message a ok emptyRun)"
  by (simp_all add: banUser_def emit_def push_def emptyRun_def)

lemma runCustomCommand_append:
  "events (runCustomCommand config message ok r) = events r @ events (runCustomCommand config message ok emptyRun)"
  "actionsTaken (runCustomCommand config message ok r) =
     actionsTaken r @ actionsTaken (runCustomCommand config message ok emptyRun)"
  by (simp_all add: runCustomCommand_def emit_def push_def emptyRun_def)

lemma executeActions_events:
  "events (executeActions env config message) =
     events (warnUser config message (dm_ok env) emptyRun)
     @ events (logToChannel config message (analysis env) (isoNow env) (fetch_result env) (embed_ok env) emptyRun)
     @ events (kickUser config message (analysis env) (kick_ok env) emptyRun)
     @ events (banUser config message (analysis env) (ban_ok env) emptyRun)
     @ events (runCustomCommand config message (custom_ok env) emptyRun)"
  unfolding executeActions_def
  apply (subst runCustomCommand_append(1))
  apply (subst banUser_append(1))
  apply (subst kickUser_append(1))
  apply (subst logToChannel_append(1))
  apply simp
  done

lemma executeActions_labels:
  "actionsTaken (executeActions env config message) =
     actionsTaken (warnUser config message (dm_ok env) emptyRun)
     @ actionsTaken (logToChannel config message (analysis env) (isoNow env) (fetch_result env) (embed_ok env) emptyRun)
     @ actionsTaken (kickUser config message (analysis env) (kick_ok env) emptyRun)
     @ actionsTaken (banUser config message (analysis env) (ban_ok env) emptyRun)
     @ actionsTaken (runCustomCommand config message (custom_ok env) emptyRun)"
  unfolding executeActions_def
  apply (subst runCustomCommand_append(2))
  apply (subst banUser_append(2))
  apply (subst kickUser_append(2))
  apply (subst logToChannel_append(2))
  apply simp
  done

lemma warnUser_labels:
  "actionsTaken (warnUser config message ok emptyRun) =
     (if enableWarn config \<and> truthyStr (warnMessage config) \<and> ok then [''warned''] else [])"
  by (simp add: warnUser_def emit_def push_def emptyRun_def)

lemma logToChannel_labels:
  "actionsTaken (logToChannel config message a stamp fetch ok emptyRun) =
     (if enableLog config \<and> truthyStr (logChannelId config) \<and> guild message \<noteq> None
         \<and> fetch \<noteq> FetchThrows \<and> fetch \<noteq> FetchNull \<and> ok
      then [''logged''] else [])"
  by (simp add: logToChannel_def emit_def push_def emptyRun_def split: option.splits fetched.splits)

lemma kickUser_labels:
  "actionsTaken (kickUser config message a ok emptyRun) =
     (if enableKick config \<and> cachedMember message \<and> ok then [''kicked''] else [])"
  by (simp add: kickUser_def emit_def push_def emptyRun_def)

lemma banUser_labels:
  "actionsTaken (banUser config message a ok emptyRun) =
     (if enableBan config \<and> cachedMember message \<and> ok then [''banned''] else [])"
  by (simp add: banUser_def emit_def push_def emptyRun_def)

lemma runCustomCommand_labels:
  "actionsTaken (runCustomCommand config message ok emptyRun) =
     (if truthyStr (customCommand config) \<and> ok then [''custom''] else [])"
  by (simp add: runCustomCommand_def emit_def push_def emptyRun_def)

section \<open>The handler\<close>

lemma createLog_eq:
  "createLog (uuid env) (now env) (newEntry message (analysis env)) st =
     (st\<lparr>logs := logs st @ [storedEntry env message]\<rparr>, length (logs st))"
  by (simp add: createLog_def storedEntry_def Let_def)

lemma setActionTaken_last:
  "setActionTaken (length xs) v (st\<lparr>logs := xs @ [e]\<rparr>) = st\<lparr>logs := xs @ [e\<lparr>actionTaken := v\<rparr>]\<rparr>"
  by (simp add: setActionTaken_def)

lemma onMessageCreate_bot:
  "bot (author message) \<Longrightarrow> onMessageCreate env message st = (st, [])"
  by (simp add: onMessageCreate_def)

lemma onMessageCreate_unconfigured:
  "getConfig st (serverKey message) = None \<Longrightarrow> onMessageCreate env message st = (st, [])"
  by (simp add: onMessageCreate_def)

lemma onMessageCreate_unmonitored:
  "getConfig st (serverKey message) = Some config \<Longrightarrow> \<not> monitorAllChannels config \<Longrightarrow>
   \<not> channelListed config message \<Longrightarrow> onMessageCreate env message st = (st, [])"
  by (simp add: onMessageCreate_def)

lemma onMessageCreate_clean:
  "\<not> bot (author message) \<Longrightarrow> getConfig st (serverKey message) = Some config \<Longrightarrow>
   monitorAllChannels config \<or> channelListed config message \<Longrightarrow> \<not> isViolation (analysis env) \<Longrightarrow>
   onMessageCreate env message st = (st, [AnalyzeMessage (content message) (sensitivityOf config)])"
  by (auto simp add: onMessageCreate_def)

lemma onMessageCreate_violation:
  assumes "\<not> bot (author message)"
    and "getConfig st (serverKey message) = Some config"
    and "monitorAllChannels config \<or> channelListed config message"
    and "isViolation (analysis env)"
  shows "onMessageCreate env message st =
     (st\<lparr>logs := logs st @
          [(storedEntry env message)\<lparr>actionTaken :=
              (if actionsTaken (executeActions env config message) = [] then ''logged''
               else join '', '' (actionsTaken (executeActions env config message)))\<rparr>]\<rparr>,
      [AnalyzeMessage (content message) (sensitivityOf config), CreateLog (storedEntry env message)]
      @ broadcastLog (st\<lparr>logs := logs st @ [storedEntry env message]\<rparr>) (storedEntry env message)
      @ events (executeActions env config message)
      @ deleteOffending message (delete_ok env))"
proof -
  have same: "(storedEntry env message)\<lparr>actionTaken := ''logged''\<rparr> = storedEntry env message"
    by (simp add: storedEntry_def newEntry_def)
  have "onMessageCreate env message st =
      (let st1 = st\<lparr>logs := logs st @ [storedEntry env message]\<rparr>;
           r = executeActions env config message
       in (if actionsTaken r \<noteq> [] then setActionTaken (length (logs st)) (join '', '' (actionsTaken r)) st1 else st1,
           [AnalyzeMessage (content message) (sensitivityOf config), CreateLog (storedEntry env message)]
           @ broadcastLog st1 (storedEntry env message) @ events r @ deleteOffending message (delete_ok env)))"
    using assms by (auto simp add: onMessageCreate_def createLog_eq Let_def)
  then show ?thesis
    by (simp add: Let_def setActionTaken_last same)
qed

lemma executeActions_succeeded:
  "actionsTaken (executeActions env config message) = spec_succeededLabels env config message"
  by (simp only: executeActions_labels warnUser_labels logToChannel_labels kickUser_labels
        banUser_labels runCustomCommand_labels spec_succeededLabels_def)








lemma executeActions_no_CreateLog:
  "filter isCreateLog (events (executeActions env config message)) = []"
  by (simp add: executeActions_events warnUser_def logToChannel_def kickUser_def banUser_def
        runCustomCommand_def emit_def push_def emptyRun_def split: option.splits fetched.splits)

lemma deleteOffending_filters:
  "filter isCreateLog (deleteOffending message ok) = []"
  "filter isEnforcement (deleteOffending message ok) = []"
  "filter isKickOrBan (deleteOffending message ok) = []"
  by (simp_all add: deleteOffending_def)

section \<open>The claims about one run of the handler\<close>

text \<open>
  The handler is modelled as one run from its first statement to its last; runs for other
  messages may interleave at the awaits, and only append rows to \<open>logs\<close>.
\<close>

text \<open>
  Claim C1. The executed ban removes the user, deletes the last 24 hours of the user's
  messages and, when a ban duration is configured, is scoped to that duration. What the
  code does at a configuration with a ban duration of 24 hours: the one ban call carries a
  reason and \<open>deleteMessageSeconds = 86400\<close> and nothing else, and the block and the whole
  run make exactly the calls they make with no duration configured.
\<close>

theorem ban_call_ignores_banDuration:
  "banDuration (banConfig (Some 24)) = Some 24
   \<and> events (banUser (banConfig (Some 24)) spamMessage (analysis spamEnv) True emptyRun) =
       [Ban ''user002'' ''Automated moderation: spam'' 86400]
   \<and> banUser (banConfig (Some 24)) spamMessage (analysis spamEnv) True emptyRun =
       banUser (banConfig None) spamMessage (analysis spamEnv) True emptyRun
   \<and> snd (onMessageCreate spamEnv spamMessage (seedState\<lparr>configs := [''123456789'' \<mapsto> banConfig (Some 24)]\<rparr>)) =
       snd (onMessageCreate spamEnv spamMessage (seedState\<lparr>configs := [''123456789'' \<mapsto> banConfig None]\<rparr>))
   \<and> Ban ''user002'' ''Automated moderation: spam'' 86400 \<in>
       set (snd (onMessageCreate spamEnv spamMessage (seedState\<lparr>configs := [''123456789'' \<mapsto> banConfig (Some 24)]\<rparr>)))"
  by code_simp

text \<open>
  Claim C2. For every message judged a violation, exactly one audit entry is created and
  stored, with \<open>actionTaken\<close> set to \<open>logged\<close>, and it is broadcast directly after that
  write; every call of an enforcement action comes after both.
\<close>

theorem audit_entry_precedes_enforcement:
  assumes "\<not> bot (author message)"
    and "getConfig st (serverKey message) = Some config"
    and "monitorAllChannels config \<or> channelListed config message"
    and "isViolation (analysis env)"
  shows "snd (onMessageCreate env message st) =
           [AnalyzeMessage (content message) (sensitivityOf config),
            CreateLog (storedEntry env message),
            BroadcastLog (map ws_id (filter (\<lambda>c. readyState c = 1) (connectedClients st))) (storedEntry env message)]
           @ events (executeActions env config message)
           @ deleteOffending message (delete_ok env)
         \<and> actionTaken (storedEntry env message) = ''logged''
         \<and> logs (fst (createLog (uuid env) (now env) (newEntry message (analysis env)) st)) =
             logs st @ [storedEntry env message]
         \<and> length (filter isCreateLog (snd (onMessageCreate env message st))) = 1
         \<and> length (logs (fst (onMessageCreate env message st))) = Suc (length (logs st))
         \<and> filter isEnforcement (snd (onMessageCreate env message st)) =
             filter isEnforcement (events (executeActions env config message))"
proof -
  note run = onMessageCreate_violation [OF assms]
  have trace: "snd (onMessageCreate env message st) =
      [AnalyzeMessage (content message) (sensitivityOf config),
       CreateLog (storedEntry env message),
       BroadcastLog (map ws_id (filter (\<lambda>c. readyState c = 1) (connectedClients st))) (storedEntry env message)]
      @ events (executeActions env config message)
      @ deleteOffending message (delete_ok env)"
    by (simp add: run broadcastLog_def)
  have sentinel: "actionTaken (storedEntry env message) = ''logged''"
    by (simp add: storedEntry_def newEntry_def)
  have stored: "logs (fst (createLog (uuid env) (now env) (newEntry message (analysis env)) st)) =
      logs st @ [storedEntry env message]"
    by (simp add: createLog_eq)
  have one: "length (filter isCreateLog (snd (onMessageCreate env message st))) = 1"
    by (simp add: trace executeActions_no_CreateLog deleteOffending_filters)
  have grown: "length (logs (fst (onMessageCreate env message st))) = Suc (length (logs st))"
    by (simp add: run)
  have later: "filter isEnforcement (snd (onMessageCreate env message st)) =
      filter isEnforcement (events (executeActions env config message))"
    by (simp add: trace deleteOffending_filters)
  from trace sentinel stored one grown later show ?thesis by blast
qed

theorem audit_entry_precedes_enforcement_witness:
  "\<not> bot (author spamMessage)
   \<and> getConfig fullState (serverKey spamMessage) = Some fullConfig
   \<and> (monitorAllChannels fullConfig \<or> channelListed fullConfig spamMessage)
   \<and> isViolation (analysis spamEnv)
   \<and> snd (onMessageCreate spamEnv spamMessage fullState) =
       [AnalyzeMessage (content spamMessage) (sensitivityOf fullConfig),
        CreateLog (storedEntry spamEnv spamMessage),
        BroadcastLog (map ws_id (filter (\<lambda>c. readyState c = 1) (connectedClients fullState)))
          (storedEntry spamEnv spamMessage)]
       @ events (executeActions spamEnv fullConfig spamMessage)
       @ deleteOffending spamMessage (delete_ok spamEnv)
   \<and> actionTaken (storedEntry spamEnv spamMessage) = ''logged''
   \<and> length (filter isCreateLog (snd (onMessageCreate spamEnv spamMessage fullState))) = 1
   \<and> length (logs (fst (onMessageCreate spamEnv spamMessage fullState))) = Suc (length (logs fullState))
   \<and> filter isEnforcement (snd (onMessageCreate spamEnv spamMessage fullState)) =
       filter isEnforcement (events (executeActions spamEnv fullConfig spamMessage))"
proof -
  have h1: "\<not> bot (author spamMessage)" by code_simp
  have h2: "getConfig fullState (serverKey spamMessage) = Some fullConfig" by code_simp
  have h3: "monitorAllChannels fullConfig \<or> channelListed fullConfig spamMessage" by code_simp
  have h4: "isViolation (analysis spamEnv)" by code_simp
  from audit_entry_precedes_enforcement [OF h1 h2 h3 h4] h1 h2 h3 h4 show ?thesis by blast
qed

text \<open>
  Claim C3. For every inbound message whose server has no configuration, the handler makes
  no classification call and creates no audit entry; and for every inbound message whose
  configuration has \<open>monitorAllChannels = false\<close> and does not list the channel, it makes
  no classification call.
\<close>

theorem no_classification_without_config_or_listing:
  "(getConfig st (serverKey message) = None \<longrightarrow>
      filter isAnalyze (snd (onMessageCreate env message st)) = []
      \<and> filter isCreateLog (snd (onMessageCreate env message st)) = []
      \<and> logs (fst (onMessageCreate env message st)) = logs st)
   \<and> (getConfig st (serverKey message) = Some config \<and> \<not> monitorAllChannels config
        \<and> \<not> channelListed config message \<longrightarrow>
      filter isAnalyze (snd (onMessageCreate env message st)) = [])"
proof (cases "bot (author message)")
  case True
  then show ?thesis by (simp add: onMessageCreate_bot)
next
  case False
  show ?thesis
    by (auto simp add: onMessageCreate_unconfigured onMessageCreate_unmonitored)
qed

theorem no_classification_without_config_or_listing_witness:
  "getConfig seedState (serverKey unconfiguredMessage) = None
   \<and> filter isAnalyze (snd (onMessageCreate spamEnv unconfiguredMessage seedState)) = []
   \<and> filter isCreateLog (snd (onMessageCreate spamEnv unconfiguredMessage seedState)) = []
   \<and> logs (fst (onMessageCreate spamEnv unconfiguredMessage seedState)) = logs seedState
   \<and> getConfig selectiveState (serverKey spamMessage) = Some selectiveConfig
   \<and> \<not> monitorAllChannels selectiveConfig
   \<and> \<not> channelListed selectiveConfig spamMessage
   \<and> filter isAnalyze (snd (onMessageCreate spamEnv spamMessage selectiveState)) = []"
proof -
  have h1: "getConfig seedState (serverKey unconfiguredMessage) = None" by code_simp
  have h2: "getConfig selectiveState (serverKey spamMessage) = Some selectiveConfig" by code_simp
  have h3: "\<not> monitorAllChannels selectiveConfig" by code_simp
  have h4: "\<not> channelListed selectiveConfig spamMessage" by code_simp
  from no_classification_without_config_or_listing [of seedState unconfiguredMessage spamEnv seedConfig]
    no_classification_without_config_or_listing [of selectiveState spamMessage spamEnv selectiveConfig]
    h1 h2 h3 h4
  show ?thesis by blast
qed

text \<open>
  Claim C5. After all configured enforcement actions have been attempted for a violation,
  the stored entry's \<open>actionTaken\<close> is the list of succeeded action labels joined in
  execution order; if no action succeeded, the entry keeps the initial \<open>logged\<close>.
\<close>

theorem actionTaken_is_joined_succeeded_labels:
  assumes "\<not> bot (author message)"
    and "getConfig st (serverKey message) = Some config"
    and "monitorAllChannels config \<or> channelListed config message"
    and "isViolation (analysis env)"
  shows "logs (fst (onMessageCreate env message st)) =
           logs st @ [(storedEntry env message)\<lparr>actionTaken :=
             (if spec_succeededLabels env config message = [] then ''logged''
              else join '', '' (spec_succeededLabels env config message))\<rparr>]
         \<and> actionsTaken (executeActions env config message) = spec_succeededLabels env config message"
  by (simp add: onMessageCreate_violation [OF assms] executeActions_succeeded)

theorem actionTaken_is_joined_succeeded_labels_witness:
  "\<not> bot (author spamMessage)
   \<and> getConfig fullState (serverKey spamMessage) = Some fullConfig
   \<and> (monitorAllChannels fullConfig \<or> channelListed fullConfig spamMessage)
   \<and> isViolation (analysis spamEnv)
   \<and> logs (fst (onMessageCreate spamEnv spamMessage fullState)) =
       logs fullState @ [(storedEntry spamEnv spamMessage)\<lparr>actionTaken :=
         (if spec_succeededLabels spamEnv fullConfig spamMessage = [] then ''logged''
          else join '', '' (spec_succeededLabels spamEnv fullConfig spamMessage))\<rparr>]
   \<and> join '', '' (spec_succeededLabels spamEnv fullConfig spamMessage) = ''warned, logged, banned, custom''"
proof -
  have h1: "\<not> bot (author spamMessage)" by code_simp
  have h2: "getConfig fullState (serverKey spamMessage) = Some fullConfig" by code_simp
  have h3: "monitorAllChannels fullConfig \<or> channelListed fullConfig spamMessage" by code_simp
  have h4: "isViolation (analysis spamEnv)" by code_simp
  have v: "join '', '' (spec_succeededLabels spamEnv fullConfig spamMessage) = ''warned, logged, banned, custom''"
    by code_simp
  from actionTaken_is_joined_succeeded_labels [OF h1 h2 h3 h4] h1 h2 h3 h4 v show ?thesis by blast
qed

text \<open>
  Claim C4. For every input on which the classification call fails (transport error,
  timeout, or parse failure), \<open>analyzeMessage\<close> returns the verdict with
  \<open>isViolation = false\<close>, \<open>violationType = "none"\<close>, \<open>confidenceScore = 0\<close> and a reasoning
  string that names the failure; the same holds for anything else the try block throws,
  so it never throws and never reports a violation on failure.
\<close>

theorem analyzeMessage_fails_open:
  assumes "response = Rejects \<or> (\<exists>c. response = Content c \<and> parse (contentText c) = None)
           \<or> (\<exists>e. tryBlock parse response = Inl e)"
  shows "analyzeMessage parse response =
           \<lparr>raw_isViolation = JBool False, raw_violationType = JStr ''none'',
            raw_confidenceScore = JNum 0, raw_reasoning = JStr ''Error analyzing message''\<rparr>
         \<and> \<not> truthy (raw_isViolation (analyzeMessage parse response))"
proof -
  from assms obtain e where "tryBlock parse response = Inl e"
    by (auto simp add: tryBlock_def)
  then show ?thesis
    by (simp add: analyzeMessage_def errorResult_def)
qed

theorem analyzeMessage_fails_open_witness:
  "(Content (Some ''<html>502</html>'') = Rejects
      \<or> (\<exists>c. Content (Some ''<html>502</html>'') = Content c \<and> parseEmptyObject (contentText c) = None)
      \<or> (\<exists>e. tryBlock parseEmptyObject (Content (Some ''<html>502</html>'')) = Inl e))
   \<and> analyzeMessage parseEmptyObject (Content (Some ''<html>502</html>'')) =
       \<lparr>raw_isViolation = JBool False, raw_violationType = JStr ''none'',
        raw_confidenceScore = JNum 0, raw_reasoning = JStr ''Error analyzing message''\<rparr>
   \<and> \<not> truthy (raw_isViolation (analyzeMessage parseEmptyObject (Content (Some ''<html>502</html>''))))"
proof -
  have "parseEmptyObject (contentText (Some ''<html>502</html>'')) = None"
    by (simp add: parseEmptyObject_def contentText_def)
  then have h: "Content (Some ''<html>502</html>'') = Rejects
      \<or> (\<exists>c. Content (Some ''<html>502</html>'') = Content c \<and> parseEmptyObject (contentText c) = None)
      \<or> (\<exists>e. tryBlock parseEmptyObject (Content (Some ''<html>502</html>'')) = Inl e)"
    by blast
  from analyzeMessage_fails_open [OF h] h show ?thesis by blast
qed











lemma onMessageCreate_cases:
  obtains (silent) "onMessageCreate env message st = (st, [])"
  | (clean) config where "getConfig st (serverKey message) = Some config"
      and "onMessageCreate env message st = (st, [AnalyzeMessage (content message) (sensitivityOf config)])"
  | (violation) config where "getConfig st (serverKey message) = Some config"
      and "onMessageCreate env message st =
        (st\<lparr>logs := logs st @
             [(storedEntry env message)\<lparr>actionTaken :=
                 (if actionsTaken (executeActions env config message) = [] then ''logged''
                  else join '', '' (actionsTaken (executeActions env config message)))\<rparr>]\<rparr>,
         [AnalyzeMessage (content message) (sensitivityOf config), CreateLog (storedEntry env message)]
         @ broadcastLog (st\<lparr>logs := logs st @ [storedEntry env message]\<rparr>) (storedEntry env message)
         @ events (executeActions env config message)
         @ deleteOffending message (delete_ok env))"
proof (cases "bot (author message)")
  case True
  then show ?thesis using silent by (simp add: onMessageCreate_bot)
next
  case nobot: False
  show ?thesis
  proof (cases "getConfig st (serverKey message)")
    case None
    then show ?thesis using silent by (simp add: onMessageCreate_unconfigured)
  next
    case (Some config)
    show ?thesis
    proof (cases "monitorAllChannels config \<or> channelListed config message")
      case False
      with Some show ?thesis using silent by (simp add: onMessageCreate_unmonitored)
    next
      case monitored: True
      show ?thesis
      proof (cases "isViolation (analysis env)")
        case True
        from onMessageCreate_violation [OF nobot Some monitored True] Some show ?thesis
          by (rule violation [rotated])
      next
        case False
        from onMessageCreate_clean [OF nobot Some monitored False] Some show ?thesis
          by (rule clean [rotated])
      qed
    qed
  qed
qed

text \<open>
  What a run does is determined by the configuration found for the message's server, the
  stored rows and the connected clients.
\<close>

lemma onMessageCreate_same_lookup:
  assumes "getConfig st' (serverKey message) = getConfig st (serverKey message)"
    and "logs st' = logs st" and "connectedClients st' = connectedClients st"
  shows "snd (onMessageCreate env message st') = snd (onMessageCreate env message st)
         \<and> logs (fst (onMessageCreate env message st')) = logs (fst (onMessageCreate env message st))"
proof (cases "bot (author message)")
  case True
  then show ?thesis using assms by (simp add: onMessageCreate_bot)
next
  case nobot: False
  show ?thesis
  proof (cases "getConfig st (serverKey message)")
    case None
    then show ?thesis using assms by (simp add: onMessageCreate_unconfigured)
  next
    case (Some config)
    then have Some': "getConfig st' (serverKey message) = Some config" using assms by simp
    show ?thesis
    proof (cases "monitorAllChannels config \<or> channelListed config message")
      case False
      with Some Some' assms show ?thesis by (simp add: onMessageCreate_unmonitored)
    next
      case monitored: True
      show ?thesis
      proof (cases "isViolation (analysis env)")
        case True
        show ?thesis
          by (simp add: onMessageCreate_violation [OF nobot Some monitored True]
                onMessageCreate_violation [OF nobot Some' monitored True] broadcastLog_def assms)
      next
        case False
        show ?thesis
          by (simp add: onMessageCreate_clean [OF nobot Some monitored False]
                onMessageCreate_clean [OF nobot Some' monitored False] assms)
      qed
    qed
  qed
qed





lemma steps_primaryAction:
  "warnUser (config\<lparr>primaryAction := p\<rparr>) message ok r = warnUser config message ok r"
  "logToChannel (config\<lparr>primaryAction := p\<rparr>) message a stamp fetch ok r =
     logToChannel config message a stamp fetch ok r"
  "kickUser (config\<lparr>primaryAction := p\<rparr>) message a ok r = kickUser config message a ok r"
  "banUser (config\<lparr>primaryAction := p\<rparr>) message a ok r = banUser config message a ok r"
  "runCustomCommand (config\<lparr>primaryAction := p\<rparr>) message ok r = runCustomCommand config message ok r"
  by (simp_all add: warnUser_def logToChannel_def kickUser_def banUser_def runCustomCommand_def
        split: option.splits fetched.splits)

lemma executeActions_primaryAction:
  "executeActions env (config\<lparr>primaryAction := p\<rparr>) message = executeActions env config message"
  by (simp only: executeActions_def steps_primaryAction)

lemma onMessageCreate_primaryAction:
  assumes "getConfig st' (serverKey message) = Some (config\<lparr>primaryAction := p\<rparr>)"
    and "getConfig st (serverKey message) = Some config"
    and "logs st' = logs st" and "connectedClients st' = connectedClients st"
  shows "snd (onMessageCreate env message st') = snd (onMessageCreate env message st)
         \<and> logs (fst (onMessageCreate env message st')) = logs (fst (onMessageCreate env message st))"
proof (cases "bot (author message)")
  case True
  then show ?thesis using assms by (simp add: onMessageCreate_bot)
next
  case nobot: False
  have listed: "channelListed (config\<lparr>primaryAction := p\<rparr>) message = channelListed config message"
    by (simp add: channelListed_def)
  have sens: "sensitivityOf (config\<lparr>primaryAction := p\<rparr>) = sensitivityOf config"
    by (simp add: sensitivityOf_def)
  show ?thesis
  proof (cases "monitorAllChannels config \<or> channelListed config message")
    case False
    then have "\<not> monitorAllChannels (config\<lparr>primaryAction := p\<rparr>)"
      and "\<not> channelListed (config\<lparr>primaryAction := p\<rparr>) message"
      by (simp_all add: listed)
    with False assms show ?thesis by (simp add: onMessageCreate_unmonitored)
  next
    case monitored: True
    then have monitored': "monitorAllChannels (config\<lparr>primaryAction := p\<rparr>)
        \<or> channelListed (config\<lparr>primaryAction := p\<rparr>) message"
      by (simp add: listed)
    show ?thesis
    proof (cases "isViolation (analysis env)")
      case True
      show ?thesis
        by (simp add: onMessageCreate_violation [OF nobot assms(2) monitored True]
              onMessageCreate_violation [OF nobot assms(1) monitored' True]
              broadcastLog_def assms(3,4) executeActions_primaryAction sens)
    next
      case False
      show ?thesis
        by (simp add: onMessageCreate_clean [OF nobot assms(2) monitored False]
              onMessageCreate_clean [OF nobot assms(1) monitored' False] assms(3,4) sens)
    qed
  qed
qed

text \<open>
  Claim C8. The handler never reads \<open>primaryAction\<close>: for two configurations that differ
  only in \<open>primaryAction\<close>, the calls made on any message (classification, audit entry,
  broadcast, actions, deletion) and the stored audit rows are the same.
\<close>

theorem primaryAction_never_read:
  "snd (onMessageCreate env message (st\<lparr>configs := (configs st)(k \<mapsto> config\<lparr>primaryAction := p\<rparr>)\<rparr>)) =
     snd (onMessageCreate env message (st\<lparr>configs := (configs st)(k \<mapsto> config)\<rparr>))
   \<and> logs (fst (onMessageCreate env message (st\<lparr>configs := (configs st)(k \<mapsto> config\<lparr>primaryAction := p\<rparr>)\<rparr>))) =
       logs (fst (onMessageCreate env message (st\<lparr>configs := (configs st)(k \<mapsto> config)\<rparr>)))"
proof (cases "serverKey message = k")
  case True
  then show ?thesis
    by (intro onMessageCreate_primaryAction) (simp_all add: getConfig_def)
next
  case False
  then show ?thesis
    by (intro onMessageCreate_same_lookup) (simp_all add: getConfig_def)
qed

theorem primaryAction_never_read_witness:
  "snd (onMessageCreate spamEnv spamMessage
          (seedState\<lparr>configs := (configs seedState)(''123456789'' \<mapsto> fullConfig\<lparr>primaryAction := ''ban''\<rparr>)\<rparr>)) =
     snd (onMessageCreate spamEnv spamMessage
          (seedState\<lparr>configs := (configs seedState)(''123456789'' \<mapsto> fullConfig)\<rparr>))
   \<and> logs (fst (onMessageCreate spamEnv spamMessage
          (seedState\<lparr>configs := (configs seedState)(''123456789'' \<mapsto> fullConfig\<lparr>primaryAction := ''ban''\<rparr>)\<rparr>))) =
       logs (fst (onMessageCreate spamEnv spamMessage
          (seedState\<lparr>configs := (configs seedState)(''123456789'' \<mapsto> fullConfig)\<rparr>)))"
  by (rule primaryAction_never_read)

lemma other_blocks_quiet:
  "filter isKickOrBan (events (warnUser config message ok emptyRun)) = []"
  "ConsoleError ''Failed to kick user:'' \<notin> set (events (warnUser config message ok emptyRun))"
  "ConsoleError ''Failed to ban user:'' \<notin> set (events (warnUser config message ok emptyRun))"
  "filter isKickOrBan (events (logToChannel config message a stamp fetch ok emptyRun)) = []"
  "ConsoleError ''Failed to kick user:'' \<notin> set (events (logToChannel config message a stamp fetch ok emptyRun))"
  "ConsoleError ''Failed to ban user:'' \<notin> set (events (logToChannel config message a stamp fetch ok emptyRun))"
  "filter isKickOrBan (events (runCustomCommand config message ok emptyRun)) = []"
  "ConsoleError ''Failed to kick user:'' \<notin> set (events (runCustomCommand config message ok emptyRun))"
  "ConsoleError ''Failed to ban user:'' \<notin> set (events (runCustomCommand config message ok emptyRun))"
  by (simp_all add: warnUser_def logToChannel_def runCustomCommand_def emit_def push_def emptyRun_def
        split: option.splits fetched.splits)

text \<open>
  Claim C10. For every violating message whose author is not in the guild's cached member
  collection, the kick and ban blocks, even when enabled, make no platform call, log no
  failure and add no label to the success list.
\<close>

theorem uncached_author_not_kicked_or_banned:
  assumes "\<not> cachedMember message"
  shows "kickUser config message a ok r = r
         \<and> banUser config message a ok r = r
         \<and> filter isKickOrBan (snd (onMessageCreate env message st)) = []
         \<and> ConsoleError ''Failed to kick user:'' \<notin> set (snd (onMessageCreate env message st))
         \<and> ConsoleError ''Failed to ban user:'' \<notin> set (snd (onMessageCreate env message st))
         \<and> ''kicked'' \<notin> set (actionsTaken (executeActions env config message))
         \<and> ''banned'' \<notin> set (actionsTaken (executeActions env config message))"
proof -
  have kick: "kickUser c message a ok r = r" for c a ok r
    using assms by (simp add: kickUser_def)
  have ban: "banUser c message a ok r = r" for c a ok r
    using assms by (simp add: banUser_def)
  have quiet: "filter isKickOrBan (events (executeActions env c message)) = []
      \<and> ConsoleError ''Failed to kick user:'' \<notin> set (events (executeActions env c message))
      \<and> ConsoleError ''Failed to ban user:'' \<notin> set (events (executeActions env c message))" for c
    by (simp add: executeActions_events kick ban other_blocks_quiet) (simp add: emptyRun_def)
  have labels: "''kicked'' \<notin> set (actionsTaken (executeActions env config message))
      \<and> ''banned'' \<notin> set (actionsTaken (executeActions env config message))"
    using assms by (simp add: executeActions_succeeded spec_succeededLabels_def)
  have trace: "filter isKickOrBan (snd (onMessageCreate env message st)) = []
      \<and> ConsoleError ''Failed to kick user:'' \<notin> set (snd (onMessageCreate env message st))
      \<and> ConsoleError ''Failed to ban user:'' \<notin> set (snd (onMessageCreate env message st))"
  proof (cases env message st rule: onMessageCreate_cases)
    case silent
    then show ?thesis by simp
  next
    case (clean c)
    then show ?thesis by simp
  next
    case (violation c)
    with quiet [of c] show ?thesis
      by (simp add: broadcastLog_def deleteOffending_def)
  qed
  from kick ban trace labels show ?thesis by blast
qed

theorem uncached_author_not_kicked_or_banned_witness:
  "\<not> cachedMember strangerMessage \<and> enableKick fullConfig \<and> enableBan fullConfig
   \<and> isViolation (analysis spamEnv)
   \<and> getConfig fullState (serverKey strangerMessage) = Some fullConfig
   \<and> filter isKickOrBan (snd (onMessageCreate spamEnv strangerMessage fullState)) = []
   \<and> ConsoleError ''Failed to kick user:'' \<notin> set (snd (onMessageCreate spamEnv strangerMessage fullState))
   \<and> ConsoleError ''Failed to ban user:'' \<notin> set (snd (onMessageCreate spamEnv strangerMessage fullState))
   \<and> ''kicked'' \<notin> set (actionsTaken (executeActions spamEnv fullConfig strangerMessage))
   \<and> ''banned'' \<notin> set (actionsTaken (executeActions spamEnv fullConfig strangerMessage))
   \<and> actionsTaken (executeActions spamEnv fullConfig strangerMessage) = [''warned'', ''logged'', ''custom'']"
proof -
  have h: "\<not> cachedMember strangerMessage" by code_simp
  have g: "enableKick fullConfig" "enableBan fullConfig" "isViolation (analysis spamEnv)"
    "getConfig fullState (serverKey strangerMessage) = Some fullConfig"
    by code_simp+
  have v: "actionsTaken (executeActions spamEnv fullConfig strangerMessage) = [''warned'', ''logged'', ''custom'']"
    by code_simp
  from uncached_author_not_kicked_or_banned [OF h, of fullConfig "analysis spamEnv" True emptyRun spamEnv fullState]
    h g v
  show ?thesis by blast
qed

end
